theory Spec2Isabelle
  imports Complex_Main "HOL-Library.AList"
begin

section \<open>Python values\<close>

text \<open>
  The values that travel through \<^verbatim>\<open>byteflowcall.py\<close> are the Python objects that
  \<^verbatim>\<open>response.json()\<close> decodes and that \<^verbatim>\<open>json=\<close> encodes: \<^verbatim>\<open>None\<close>, booleans, integers,
  floats, strings, lists and dictionaries with string keys. A dictionary is an association
  list in insertion order, as a Python \<^verbatim>\<open>dict\<close> keeps it. A float is a real number (the
  finite doubles); \<^verbatim>\<open>NaN\<close> and the infinities are not JSON and are left out.
\<close>

datatype jvalue =
    JNull
  | JBool bool
  | JInt int
  | JFloat real
  | JStr string
  | JList "jvalue list"
  | JDict "(string \<times> jvalue) list"

type_synonym jdict = "(string \<times> jvalue) list"

text \<open>Python's truth value testing, as \<^verbatim>\<open>not x\<close>, \<^verbatim>\<open>x or y\<close> and \<^verbatim>\<open>if x:\<close> use it.\<close>

fun truthy :: "jvalue \<Rightarrow> bool" where
  "truthy JNull = False"
| "truthy (JBool b) = b"
| "truthy (JInt i) = (i \<noteq> 0)"
| "truthy (JFloat f) = (f \<noteq> 0)"
| "truthy (JStr s) = (s \<noteq> [])"
| "truthy (JList xs) = (xs \<noteq> [])"
| "truthy (JDict d) = (d \<noteq> [])"

text \<open>\<^verbatim>\<open>a or b\<close>: the left operand when it is truthy, the right operand otherwise.\<close>

definition py_or :: "jvalue \<Rightarrow> jvalue \<Rightarrow> jvalue" where
  "py_or a b = (if truthy a then a else b)"

text \<open>A field of type \<^verbatim>\<open>Optional[str]\<close> as a Python value.\<close>

definition opt_str :: "string option \<Rightarrow> jvalue" where
  "opt_str x = (case x of None \<Rightarrow> JNull | Some s \<Rightarrow> JStr s)"

text \<open>\<^verbatim>\<open>d.get(k)\<close>: the value stored under the key, \<^verbatim>\<open>None\<close> when there is none.\<close>

definition dict_get :: "jdict \<Rightarrow> string \<Rightarrow> jvalue" where
  "dict_get d k = (case map_of d k of None \<Rightarrow> JNull | Some v \<Rightarrow> v)"

subsection \<open>Formatting\<close>

definition digit_char :: "nat \<Rightarrow> char" where
  "digit_char n = ''0123456789'' ! n"

fun str_nat :: "nat \<Rightarrow> string" where
  "str_nat n = (if n < 10 then [digit_char n] else str_nat (n div 10) @ [digit_char (n mod 10)])"

declare str_nat.simps [simp del]

text \<open>\<^verbatim>\<open>str(i)\<close> of a Python integer, also what an f-string writes for it.\<close>

definition str_int :: "int \<Rightarrow> string" where
  "str_int i = (if i < 0 then CHR ''-'' # str_nat (nat (- i)) else str_nat (nat i))"

text \<open>What an f-string writes for an \<^verbatim>\<open>Optional[str]\<close>.\<close>

definition str_opt :: "string option \<Rightarrow> string" where
  "str_opt x = (case x of None \<Rightarrow> ''None'' | Some s \<Rightarrow> s)"

text \<open>
  \<^verbatim>\<open>str(v)\<close>. A string is itself, \<^verbatim>\<open>None\<close>, booleans and integers have
  their fixed spellings. The \<^verbatim>\<open>repr\<close> of floats, lists and dictionaries (shortest
  round-trip digits, quoting and escaping of nested strings) belongs to the interpreter and
  is taken as the parameter \<open>repr\<close>.
\<close>

definition py_str :: "(jvalue \<Rightarrow> string) \<Rightarrow> jvalue \<Rightarrow> string" where
  "py_str repr v =
     (case v of
        JStr s \<Rightarrow> s
      | JNull \<Rightarrow> ''None''
      | JBool b \<Rightarrow> (if b then ''True'' else ''False'')
      | JInt i \<Rightarrow> str_int i
      | _ \<Rightarrow> repr v)"

section \<open>The HTTP layer\<close>

text \<open>
  The keyword arguments of the one call \<^verbatim>\<open>requests.request(method, url, headers=...,
  params=..., json=..., timeout=15)\<close>.
\<close>

record request =
  req_method :: string
  req_url :: string
  req_headers :: "(string \<times> string) list"
  req_params :: "jdict option"
  req_json :: "jdict option"
  req_timeout :: nat

text \<open>
  What the code reads of a \<^verbatim>\<open>requests.Response\<close>: \<^verbatim>\<open>status_code\<close>, \<^verbatim>\<open>text\<close>, and
  \<^verbatim>\<open>json()\<close>, which returns the decoded body or raises.

  What can be raised inside the \<^verbatim>\<open>try\<close> of \<^verbatim>\<open>_make_request\<close>, by class, each with its
  \<^verbatim>\<open>str(e)\<close>: \<^verbatim>\<open>HTTPError\<close> carries its \<^verbatim>\<open>response\<close> attribute, which is the response
  when \<^verbatim>\<open>raise_for_status\<close> raised it and \<^verbatim>\<open>None\<close> when it was raised without one;
  \<^verbatim>\<open>ConnectTimeout\<close> is a subclass of both \<^verbatim>\<open>ConnectionError\<close> and \<^verbatim>\<open>Timeout\<close>;
  \<^verbatim>\<open>OtherException\<close> is any other subclass of \<^verbatim>\<open>Exception\<close>.
\<close>

datatype response = Response (resp_status_code: int) (resp_text: string) (resp_json: "raised + jvalue")
  and raised =
    HTTPError "response option"
  | ConnectionError string
  | ConnectTimeout string
  | Timeout string
  | RequestException string
  | OtherException string

text \<open>
  The remote service together with the \<^verbatim>\<open>requests\<close> library: given the requests sent so
  far and the request at hand, the call returns a response or raises.
\<close>

type_synonym remote = "request list \<Rightarrow> request \<Rightarrow> raised + response"

text \<open>
  The exceptions that can leave a function of the module: \<^verbatim>\<open>ByteflowAPIError\<close> with its
  \<^verbatim>\<open>message\<close>, \<^verbatim>\<open>status_code\<close> and \<^verbatim>\<open>response_text\<close>, or any other \<^verbatim>\<open>Exception\<close> with its
  \<^verbatim>\<open>str(e)\<close>.
\<close>

datatype py_exception =
    ByteflowAPIError string "int option" "string option"
  | Exception string

text \<open>
  The process: \<^verbatim>\<open>os.environ\<close>, the module globals bound once at import
  (\<^verbatim>\<open>BYTEFLOW_API_KEY\<close>, \<^verbatim>\<open>BASE_URL\<close>), and the requests handed to the network so far, which
  is the network-call counter of the tests.
\<close>

record process =
  environ :: "string \<Rightarrow> string option"
  BYTEFLOW_API_KEY :: string
  BASE_URL :: string
  sent :: "request list"

text \<open>Lines 13 to 21, run once at import, on the environment left by \<^verbatim>\<open>load_dotenv\<close>.\<close>

definition import_module :: "(string \<Rightarrow> string option) \<Rightarrow> process" where
  "import_module env =
     (let key = opt_str (env ''BYTEFLOW_API_KEY'');
          env' = (if \<not> truthy key
                  then env(''BYTEFLOW_API_KEY'' \<mapsto> ''dummy_key_for_tests'') else env);
          key' = (if \<not> truthy key then ''dummy_key_for_tests''
                  else str_opt (env ''BYTEFLOW_API_KEY''))
      in \<lparr> environ = env',
           BYTEFLOW_API_KEY = key',
           BASE_URL = (case env ''BYTEFLOW_API_BASE_URL'' of
                         None \<Rightarrow> ''https://apidoc.byteflow.bot'' | Some u \<Rightarrow> u),
           sent = [] \<rparr>)"

definition HEADERS :: "(string \<times> string) list" where
  "HEADERS = [(''Content-Type'', ''application/json'')]"

text \<open>
  \<^verbatim>\<open>os.getenv(name, default)\<close> on the environment of the process at the time of the call.
\<close>

definition getenv :: "process \<Rightarrow> string \<Rightarrow> string \<Rightarrow> string" where
  "getenv s name fallback = (case environ s name of None \<Rightarrow> fallback | Some v \<Rightarrow> v)"

text \<open>
  Lines 57 to 66 of \<^verbatim>\<open>_make_request\<close>: the URL, the copy of \<^verbatim>\<open>HEADERS\<close> with the two
  credential headers set, and the arguments of \<^verbatim>\<open>requests.request\<close>.
\<close>

definition build_request ::
  "process \<Rightarrow> string \<Rightarrow> string \<Rightarrow> jdict option \<Rightarrow> jdict option \<Rightarrow> request" where
  "build_request s method endpoint params json_data =
     (let url = BASE_URL s @ endpoint;
          current_headers = HEADERS;
          bearer_token = getenv s ''BYTEFLOW_API_KEY'' ''dummy_key_for_tests'';
          current_headers = AList.update ''Authorization'' (''Bearer '' @ bearer_token) current_headers;
          current_headers = AList.update ''X-API-Key'' bearer_token current_headers
      in \<lparr> req_method = method, req_url = url, req_headers = current_headers,
           req_params = params, req_json = json_data, req_timeout = 15 \<rparr>)"

text \<open>
  \<^verbatim>\<open>response.raise_for_status()\<close> of the library: it raises \<^verbatim>\<open>HTTPError\<close>, carrying the
  response, for a status from 400 to 599.
\<close>

definition raise_for_status :: "response \<Rightarrow> raised + unit" where
  "raise_for_status r =
     (if 400 \<le> resp_status_code r \<and> resp_status_code r < 600 then Inl (HTTPError (Some r))
      else Inr ())"

text \<open>
  The \<^verbatim>\<open>except\<close> clauses of \<^verbatim>\<open>_make_request\<close>, lines 69 to 84, in their order: the first
  clause whose class matches raises a \<^verbatim>\<open>ByteflowAPIError\<close> in place of the exception. The
  clause for \<^verbatim>\<open>HTTPError\<close> reads \<^verbatim>\<open>e.response.status_code\<close> first (line 70): when the
  exception carries no response, that read raises \<^verbatim>\<open>AttributeError\<close> inside the handler, and
  this is the exception that leaves \<^verbatim>\<open>_make_request\<close>. Logging is not modelled.
\<close>

fun convert_raised :: "raised \<Rightarrow> py_exception" where
  "convert_raised (HTTPError (Some r)) =
     ByteflowAPIError
       (''Byteflow API HTTP Error: '' @ str_int (resp_status_code r) @ '' - '' @ resp_text r)
       (Some (resp_status_code r)) (Some (resp_text r))"
| "convert_raised (HTTPError None) =
     Exception ([CHR 0x27] @ ''NoneType'' @ [CHR 0x27] @ '' object has no attribute ''
                @ [CHR 0x27] @ ''status_code'' @ [CHR 0x27])"
| "convert_raised (ConnectionError m) =
     ByteflowAPIError (''Byteflow API Connection Error: '' @ m) None None"
| "convert_raised (ConnectTimeout m) =
     ByteflowAPIError (''Byteflow API Connection Error: '' @ m) None None"
| "convert_raised (Timeout m) =
     ByteflowAPIError (''Byteflow API Timeout Error: '' @ m) None None"
| "convert_raised (RequestException m) =
     ByteflowAPIError (''An unexpected request error occurred with Byteflow API: '' @ m) None None"
| "convert_raised (OtherException m) =
     ByteflowAPIError (''An unexpected error occurred during API request: '' @ m) None None"

text \<open>
  Lines 66 to 84: what \<^verbatim>\<open>_make_request\<close> returns or raises, given what
  \<^verbatim>\<open>requests.request\<close> did.
\<close>

definition interpret_outcome :: "raised + response \<Rightarrow> py_exception + jvalue" where
  "interpret_outcome out =
     (case out of
        Inl e \<Rightarrow> Inl (convert_raised e)
      | Inr response \<Rightarrow>
          (case raise_for_status response of
             Inl e \<Rightarrow> Inl (convert_raised e)
           | Inr _ \<Rightarrow>
               (case resp_json response of
                  Inl e \<Rightarrow> Inl (convert_raised e)
                | Inr v \<Rightarrow> Inr v)))"

text \<open>
  \<^verbatim>\<open>_make_request\<close> (the leading underscore is not an Isabelle name): one request is
  handed to the network and recorded, and its outcome is returned or raised.
\<close>

definition make_request ::
  "remote \<Rightarrow> string \<Rightarrow> string \<Rightarrow> jdict option \<Rightarrow> jdict option \<Rightarrow> process
     \<Rightarrow> (py_exception + jvalue) \<times> process" where
  "make_request R method endpoint params json_data s =
     (let req = build_request s method endpoint params json_data
      in (interpret_outcome (R (sent s) req), s\<lparr>sent := sent s @ [req]\<rparr>))"

section \<open>The tools\<close>

text \<open>
  A tool returns a Python value (\<open>Inr\<close>), an error message being the string \<open>JStr\<close>, or
  lets an exception reach its caller (\<open>Inl\<close>). Every tool also returns the process, with
  the requests it sent appended.
\<close>

type_synonym tool_result = "(py_exception + jvalue) \<times> process"

record CallIdInput =
  call_id :: string

record StartCallInput =
  to_number :: "string option"
  from_number :: "string option"
  destination :: "string option"
  did_number :: "string option"
  ai_client :: "string option"
  script_id :: "string option"
  metadata :: "jdict option"
  system_prompt :: string
  greeting_text :: string

definition get_health_status :: "remote \<Rightarrow> process \<Rightarrow> tool_result" where
  "get_health_status R s =
     (case make_request R ''GET'' ''/api/health'' None None s of
        (Inr response, s') \<Rightarrow> (Inr response, s')
      | (Inl (ByteflowAPIError message status_code response_text), s') \<Rightarrow>
          (Inr (JStr (''Failed to get health status: '' @ message)), s')
      | (Inl (Exception e), s') \<Rightarrow>
          (Inr (JStr (''An unexpected error occurred: '' @ e)), s'))"

definition get_configuration :: "remote \<Rightarrow> process \<Rightarrow> tool_result" where
  "get_configuration R s =
     (case make_request R ''GET'' ''/api/config'' None None s of
        (Inr response, s') \<Rightarrow> (Inr response, s')
      | (Inl (ByteflowAPIError message status_code response_text), s') \<Rightarrow>
          (Inr (JStr (''Failed to get configuration: '' @ message)), s')
      | (Inl (Exception e), s') \<Rightarrow>
          (Inr (JStr (''An unexpected error occurred: '' @ e)), s'))"

definition get_call_status :: "remote \<Rightarrow> CallIdInput \<Rightarrow> process \<Rightarrow> tool_result" where
  "get_call_status R input s =
     (case make_request R ''GET'' (''/api/call/'' @ call_id input) None None s of
        (Inr response, s') \<Rightarrow> (Inr response, s')
      | (Inl (ByteflowAPIError message status_code response_text), s') \<Rightarrow>
          (if status_code = Some 404
           then (Inr (JStr (''Call with ID '' @ [CHR 0x27] @ call_id input @ [CHR 0x27]
                            @ '' not found. Please check the call ID.'')), s')
           else (Inr (JStr (''Failed to get call status for '' @ [CHR 0x27] @ call_id input
                            @ [CHR 0x27] @ '': '' @ message)), s'))
      | (Inl (Exception e), s') \<Rightarrow>
          (Inr (JStr (''An unexpected error occurred: '' @ e)), s'))"

definition get_call_transcript :: "remote \<Rightarrow> CallIdInput \<Rightarrow> process \<Rightarrow> tool_result" where
  "get_call_transcript R input s =
     (case make_request R ''GET'' (''/api/call/'' @ call_id input @ ''/transcript'') None None s of
        (Inr response, s') \<Rightarrow> (Inr response, s')
      | (Inl (ByteflowAPIError message status_code response_text), s') \<Rightarrow>
          (if status_code = Some 404
           then (Inr (JStr (''Transcript for call ID '' @ [CHR 0x27] @ call_id input @ [CHR 0x27]
                            @ '' not found or call does not exist. It might not be available yet.'')), s')
           else (Inr (JStr (''Failed to get call transcript for '' @ [CHR 0x27] @ call_id input
                            @ [CHR 0x27] @ '': '' @ message)), s'))
      | (Inl (Exception e), s') \<Rightarrow>
          (Inr (JStr (''An unexpected error occurred: '' @ e)), s'))"

definition get_active_calls :: "remote \<Rightarrow> process \<Rightarrow> tool_result" where
  "get_active_calls R s =
     (case make_request R ''GET'' ''/api/calls/active'' None None s of
        (Inr response, s') \<Rightarrow> (Inr response, s')
      | (Inl (ByteflowAPIError message status_code response_text), s') \<Rightarrow>
          (Inr (JStr (''Failed to get active calls: '' @ message)), s')
      | (Inl (Exception e), s') \<Rightarrow>
          (Inr (JStr (''An unexpected error occurred: '' @ e)), s'))"

text \<open>
  \<^verbatim>\<open>list_available_dids\<close>. The two fallbacks run inside \<^verbatim>\<open>except\<close> handlers, where the
  outer \<^verbatim>\<open>except Exception\<close> clause no longer applies: an exception other than
  \<^verbatim>\<open>ByteflowAPIError\<close> raised by a fallback leaves the tool.
\<close>

definition list_available_dids :: "remote \<Rightarrow> process \<Rightarrow> tool_result" where
  "list_available_dids R s =
     (case make_request R ''POST'' ''/api/validate-and-fetch-dids'' None None s of
        (Inr response, s1) \<Rightarrow> (Inr response, s1)
      | (Inl (ByteflowAPIError message_primary sc1 rt1), s1) \<Rightarrow>
          (case make_request R ''GET'' ''/api/did/my-dids'' None None s1 of
             (Inr fallback1, s2) \<Rightarrow> (Inr fallback1, s2)
           | (Inl (ByteflowAPIError message_fb1 sc2 rt2), s2) \<Rightarrow>
               (case make_request R ''GET'' ''/api/dids'' None None s2 of
                  (Inr fallback2, s3) \<Rightarrow> (Inr fallback2, s3)
                | (Inl (ByteflowAPIError message_fb2 sc3 rt3), s3) \<Rightarrow>
                    (Inr (JStr (''Failed to list available DIDs: '' @ message_fb2)), s3)
                | (Inl (Exception e), s3) \<Rightarrow> (Inl (Exception e), s3))
           | (Inl (Exception e), s2) \<Rightarrow> (Inl (Exception e), s2))
      | (Inl (Exception e), s1) \<Rightarrow>
          (Inr (JStr (''An unexpected error occurred: '' @ e)), s1))"

definition force_disconnect_call :: "remote \<Rightarrow> CallIdInput \<Rightarrow> process \<Rightarrow> tool_result" where
  "force_disconnect_call R input s =
     (case make_request R ''POST'' (''/api/call/'' @ call_id input @ ''/force-disconnect'')
             None None s of
        (Inr response, s') \<Rightarrow> (Inr response, s')
      | (Inl (ByteflowAPIError message status_code response_text), s') \<Rightarrow>
          (if status_code = Some 404
           then (Inr (JStr (''Call with ID '' @ [CHR 0x27] @ call_id input @ [CHR 0x27]
                            @ '' not found or already disconnected. Cannot force disconnect.'')), s')
           else (Inr (JStr (''Failed to force disconnect call '' @ [CHR 0x27] @ call_id input
                            @ [CHR 0x27] @ '': '' @ message)), s'))
      | (Inl (Exception e), s') \<Rightarrow>
          (Inr (JStr (''An unexpected error occurred: '' @ e)), s'))"

text \<open>
  Lines 288 to 292 of \<^verbatim>\<open>start_new_call\<close>: the legacy aliases and the defaults, each
  with Python's \<^verbatim>\<open>or\<close>.
\<close>

definition resolved_destination :: "StartCallInput \<Rightarrow> jvalue" where
  "resolved_destination input = py_or (opt_str (destination input)) (opt_str (to_number input))"

definition resolved_did_number :: "StartCallInput \<Rightarrow> jvalue" where
  "resolved_did_number input = py_or (opt_str (did_number input)) (opt_str (from_number input))"

definition resolved_ai_client :: "StartCallInput \<Rightarrow> jvalue" where
  "resolved_ai_client input = py_or (opt_str (ai_client input)) (JStr ''client1'')"

definition resolved_system_prompt :: "StartCallInput \<Rightarrow> jvalue" where
  "resolved_system_prompt input =
     py_or (JStr (system_prompt input)) (JStr ''You are an AI assistant helping with a phone call.'')"

definition resolved_greeting_text :: "StartCallInput \<Rightarrow> jvalue" where
  "resolved_greeting_text input =
     py_or (JStr (greeting_text input)) (JStr ''Hello! This is an automated call.'')"

text \<open>
  Line 302: the list under \<^verbatim>\<open>"dids"\<close> when the response is a \<^verbatim>\<open>dict\<close> that has the key
  with a \<^verbatim>\<open>list\<close> under it.
\<close>

definition did_list :: "jvalue \<Rightarrow> jvalue list option" where
  "did_list did_resp =
     (case did_resp of
        JDict d \<Rightarrow> (case map_of d ''dids'' of Some (JList l) \<Rightarrow> Some l | _ \<Rightarrow> None)
      | _ \<Rightarrow> None)"

text \<open>Line 307: the DID read from the first entry, a \<^verbatim>\<open>dict\<close> or any other value.\<close>

definition did_of_entry :: "(jvalue \<Rightarrow> string) \<Rightarrow> jvalue \<Rightarrow> jvalue" where
  "did_of_entry repr first_did =
     (case first_did of
        JDict fd \<Rightarrow> dict_get fd ''did_number''
      | _ \<Rightarrow> JStr (py_str repr first_did))"

text \<open>
  Lines 301 to 307: the DID chosen from the response of the lookup; \<open>did_number'\<close> is the
  value the variable had before.
\<close>

definition select_first_did :: "(jvalue \<Rightarrow> string) \<Rightarrow> jvalue \<Rightarrow> jvalue \<Rightarrow> jvalue" where
  "select_first_did repr did_resp did_number' =
     (let dids = (case did_list did_resp of Some l \<Rightarrow> l | None \<Rightarrow> [])
      in case dids of
           [] \<Rightarrow> did_number'
         | first_did # _ \<Rightarrow> did_of_entry repr first_did)"

text \<open>
  Lines 299 to 309, the inner \<^verbatim>\<open>try\<close>: one lookup, and \<^verbatim>\<open>except Exception: pass\<close>
  leaves the variable as it was whatever was raised.
\<close>

definition auto_select_did ::
  "remote \<Rightarrow> (jvalue \<Rightarrow> string) \<Rightarrow> jvalue \<Rightarrow> process \<Rightarrow> jvalue \<times> process" where
  "auto_select_did R repr did_number' s =
     (case make_request R ''POST'' ''/api/validate-and-fetch-dids'' None None s of
        (Inr did_resp, s') \<Rightarrow> (select_first_did repr did_resp did_number', s')
      | (Inl e, s') \<Rightarrow> (did_number', s'))"

text \<open>Lines 314 to 326: the payload, the two optional keys set only when not \<^verbatim>\<open>None\<close>.\<close>

definition assemble_payload :: "StartCallInput \<Rightarrow> jvalue \<Rightarrow> jdict" where
  "assemble_payload input did_number' =
     (let payload = [(''destination'', resolved_destination input),
                     (''did_number'', did_number'),
                     (''ai_client'', resolved_ai_client input),
                     (''system_prompt'', resolved_system_prompt input),
                     (''greeting_text'', resolved_greeting_text input)];
          payload = (case script_id input of
                       None \<Rightarrow> payload
                     | Some sid \<Rightarrow> AList.update ''script_id'' (JStr sid) payload);
          payload = (case metadata input of
                       None \<Rightarrow> payload
                     | Some md \<Rightarrow> AList.update ''metadata'' (JDict md) payload)
      in payload)"

text \<open>
  Lines 314 to 337: the payload is posted, and the two outer \<^verbatim>\<open>except\<close> clauses turn a
  failure of that request into a message.
\<close>

definition post_call :: "remote \<Rightarrow> StartCallInput \<Rightarrow> jvalue \<Rightarrow> process \<Rightarrow> tool_result" where
  "post_call R input did_number' s =
     (case make_request R ''POST'' ''/api/call'' None (Some (assemble_payload input did_number')) s of
        (Inr response, s') \<Rightarrow> (Inr response, s')
      | (Inl (ByteflowAPIError message status_code response_text), s') \<Rightarrow>
          (if status_code = Some 400 \<or> status_code = Some 422
           then (Inr (JStr (''Failed to start call due to invalid input: ''
                   @ str_opt response_text
                   @ ''. Please check the provided numbers and parameters.'')), s')
           else (Inr (JStr (''Failed to start call to '' @ [CHR 0x27]
                   @ str_opt (to_number input) @ [CHR 0x27] @ '': '' @ message)), s'))
      | (Inl (Exception e), s') \<Rightarrow>
          (Inr (JStr (''An unexpected error occurred: '' @ e)), s'))"

text \<open>\<^verbatim>\<open>start_new_call\<close>, lines 286 to 337.\<close>

definition start_new_call ::
  "remote \<Rightarrow> (jvalue \<Rightarrow> string) \<Rightarrow> StartCallInput \<Rightarrow> process \<Rightarrow> tool_result" where
  "start_new_call R repr input s =
     (if \<not> truthy (resolved_destination input)
      then (Inr (JStr ''Failed to start call due to invalid input: destination/to_number is required.''), s)
      else
        (case (if \<not> truthy (resolved_did_number input)
               then auto_select_did R repr (resolved_did_number input) s
               else (resolved_did_number input, s)) of
           (did_number', s1) \<Rightarrow>
             if \<not> truthy did_number'
             then (Inr (JStr ''Failed to start call: did_number/from_number is required (no default DID available).''), s1)
             else post_call R input did_number' s1))"

text \<open>The requests a run of a tool handed to the network, in order.\<close>

definition issued :: "process \<Rightarrow> tool_result \<Rightarrow> request list" where
  "issued s res = drop (length (sent s)) (sent (snd res))"

section \<open>Concrete inputs\<close>

text \<open>
  A mock of the network that answers the calls in order from a list, as the tests of the
  specification do, and refuses the connection once the list is used up.
\<close>

definition scripted :: "(raised + response) list \<Rightarrow> remote" where
  "scripted outs history req =
     (if length history < length outs then outs ! length history
      else Inl (ConnectionError ''connection refused''))"

definition example_repr :: "jvalue \<Rightarrow> string" where
  "example_repr v = ''<repr>''"

text \<open>A process right after import, with no variable set.\<close>

definition example_process :: process where
  "example_process = import_module Map.empty"

definition ok_response :: "raised + response" where
  "ok_response = Inr (Response 200 ''ok'' (Inr (JDict [(''call_id'', JStr ''c1'')])))"

definition input_no_destination :: StartCallInput where
  "input_no_destination =
     \<lparr> to_number = None, from_number = Some ''+15550001111'', destination = None,
       did_number = None, ai_client = None, script_id = None, metadata = None,
       system_prompt = ''p'', greeting_text = ''g'' \<rparr>"

definition input_with_script :: StartCallInput where
  "input_with_script =
     \<lparr> to_number = None, from_number = None, destination = Some ''08069256212'',
       did_number = Some ''+15550001111'', ai_client = Some ''client2'', script_id = Some ''s1'',
       metadata = None, system_prompt = ''p'', greeting_text = ''g'' \<rparr>"

definition input_empty_direct :: StartCallInput where
  "input_empty_direct =
     \<lparr> to_number = Some ''08069256212'', from_number = Some ''+15550002222'',
       destination = Some '''', did_number = Some '''', ai_client = None,
       script_id = None, metadata = None, system_prompt = ''p'', greeting_text = ''g'' \<rparr>"

definition input_both_given :: StartCallInput where
  "input_both_given =
     \<lparr> to_number = Some ''08000000000'', from_number = Some ''+15550002222'',
       destination = Some ''08069256212'', did_number = Some ''+15550001111'', ai_client = None,
       script_id = None, metadata = None, system_prompt = ''p'', greeting_text = ''g'' \<rparr>"

definition input_empty_strings :: StartCallInput where
  "input_empty_strings =
     \<lparr> to_number = None, from_number = None,
       destination = Some ''08069256212'', did_number = Some ''+15550001111'',
       ai_client = Some '''', script_id = None, metadata = None,
       system_prompt = '''', greeting_text = '''' \<rparr>"

definition input_to_number_only :: StartCallInput where
  "input_to_number_only =
     \<lparr> to_number = Some ''08069256212'', from_number = None, destination = None,
       did_number = None, ai_client = None, script_id = None, metadata = None,
       system_prompt = ''p'', greeting_text = ''g'' \<rparr>"

definition dids_response :: "raised + response" where
  "dids_response =
     Inr (Response 200 ''ok'' (Inr (JDict [(''dids'', JList [JStr ''+1555...''])])))"

definition bare_list_response :: "raised + response" where
  "bare_list_response = Inr (Response 200 ''ok'' (Inr (JList [JStr ''+1555...''])))"

definition unnumbered_response :: "raised + response" where
  "unnumbered_response =
     Inr (Response 200 ''ok''
            (Inr (JDict [(''dids'', JList [JDict [(''did_number'', JStr ''''), (''label'', JStr ''main'')]])])))"

definition timeout_outcome :: "raised + response" where
  "timeout_outcome = Inl (Timeout ''read timed out'')"

definition connection_refused :: "raised + response" where
  "connection_refused = Inl (ConnectionError ''refused'')"

definition server_error :: "raised + response" where
  "server_error = Inr (Response 503 ''unavailable'' (Inr JNull))"

definition my_dids_response :: "raised + response" where
  "my_dids_response = Inr (Response 200 ''ok'' (Inr (JList [JStr ''+15550001111''])))"


definition object_dids_response :: "raised + response" where
  "object_dids_response =
     Inr (Response 200 ''ok''
            (Inr (JDict [(''dids'',
                    JList [JDict [(''label'', JStr ''main''), (''did_number'', JStr ''+15550003333'')],
                           JStr ''+1555...''])])))"

definition number_dids_response :: "raised + response" where
  "number_dids_response =
     Inr (Response 200 ''ok'' (Inr (JDict [(''dids'', JList [JInt 8069256000, JStr ''+1555...''])])))"

section \<open>Facts about the HTTP layer\<close>

lemma make_request_eq:
  "make_request R method endpoint params json_data s =
     (interpret_outcome (R (sent s) (build_request s method endpoint params json_data)),
      s\<lparr>sent := sent s @ [build_request s method endpoint params json_data]\<rparr>)"
  by (simp add: make_request_def Let_def)

lemma build_request_sent [simp]:
  "build_request (s\<lparr>sent := x\<rparr>) method endpoint params json_data =
   build_request s method endpoint params json_data"
  by (simp add: build_request_def getenv_def)

lemma build_request_headers:
  "req_headers (build_request s method endpoint params json_data) =
     [(''Content-Type'', ''application/json''),
      (''Authorization'', ''Bearer '' @ getenv s ''BYTEFLOW_API_KEY'' ''dummy_key_for_tests''),
      (''X-API-Key'', getenv s ''BYTEFLOW_API_KEY'' ''dummy_key_for_tests'')]"
  by (simp add: build_request_def HEADERS_def Let_def)

section \<open>The credential headers\<close>

text \<open>
  Claim C9. Every call of \<^verbatim>\<open>_make_request\<close>, in every state of the process, hands exactly
  one request to the network. Its headers carry the value that \<^verbatim>\<open>os.environ\<close> holds for
  \<^verbatim>\<open>BYTEFLOW_API_KEY\<close> at the time of the call, once as \<^verbatim>\<open>Authorization: Bearer ...\<close> and
  once as \<^verbatim>\<open>X-API-Key\<close>, and the placeholder \<^verbatim>\<open>dummy_key_for_tests\<close> when the variable is
  not set; the request is sent in that case too. The module global bound at import plays no
  part: replacing it by any other value \<open>captured\<close> leaves the request as it is.
\<close>

theorem make_request_credential:
  "\<exists>req. sent (snd (make_request R method endpoint params json_data s)) = sent s @ [req]
      \<and> req_method req = method
      \<and> req_url req = BASE_URL s @ endpoint
      \<and> req_headers req =
          [(''Content-Type'', ''application/json''),
           (''Authorization'', ''Bearer '' @
              (case environ s ''BYTEFLOW_API_KEY'' of
                 None \<Rightarrow> ''dummy_key_for_tests'' | Some k \<Rightarrow> k)),
           (''X-API-Key'',
              (case environ s ''BYTEFLOW_API_KEY'' of
                 None \<Rightarrow> ''dummy_key_for_tests'' | Some k \<Rightarrow> k))]
      \<and> sent (snd (make_request R method endpoint params json_data
                      (s\<lparr>BYTEFLOW_API_KEY := captured\<rparr>))) = sent s @ [req]"
  by (simp add: make_request_eq build_request_headers getenv_def)
     (simp add: build_request_def getenv_def Let_def)

section \<open>Facts about \<^verbatim>\<open>start_new_call\<close>\<close>

lemma issued_append [simp]: "issued s (v, s\<lparr>sent := sent s @ l\<rparr>) = l"
  by (simp add: issued_def)

lemma issued_same [simp]: "issued s (v, s) = []"
  by (simp add: issued_def)

lemma auto_select_did_eq:
  "auto_select_did R repr d s =
     (case interpret_outcome
             (R (sent s) (build_request s ''POST'' ''/api/validate-and-fetch-dids'' None None)) of
        Inr did_resp \<Rightarrow> select_first_did repr did_resp d
      | Inl e \<Rightarrow> d,
      s\<lparr>sent := sent s @ [build_request s ''POST'' ''/api/validate-and-fetch-dids'' None None]\<rparr>)"
  by (simp add: auto_select_did_def make_request_eq split: sum.splits)

lemma post_call_snd:
  "snd (post_call R input d s) =
     s\<lparr>sent := sent s @ [build_request s ''POST'' ''/api/call'' None (Some (assemble_payload input d))]\<rparr>"
  by (simp add: post_call_def make_request_eq split: sum.splits py_exception.splits)

lemma post_call_returns: "\<exists>v. fst (post_call R input d s) = Inr v"
  by (simp add: post_call_def make_request_eq split: sum.splits py_exception.splits)

lemma keys_assemble_payload:
  "map fst (assemble_payload input d) =
     [''destination'', ''did_number'', ''ai_client'', ''system_prompt'', ''greeting_text'']
     @ (case script_id input of None \<Rightarrow> [] | Some sid \<Rightarrow> [''script_id''])
     @ (case metadata input of None \<Rightarrow> [] | Some md \<Rightarrow> [''metadata''])"
  by (simp add: assemble_payload_def Let_def split: option.splits)

lemma build_request_url [simp]:
  "req_url (build_request s method endpoint params json_data) = BASE_URL s @ endpoint"
  by (simp add: build_request_def Let_def)

lemma build_request_json [simp]:
  "req_json (build_request s method endpoint params json_data) = json_data"
  by (simp add: build_request_def Let_def)

lemma build_request_method [simp]:
  "req_method (build_request s method endpoint params json_data) = method"
  by (simp add: build_request_def Let_def)

text \<open>The three ways a run of \<^verbatim>\<open>start_new_call\<close> can go.\<close>

lemma start_new_call_no_destination:
  "\<not> truthy (resolved_destination input) \<Longrightarrow>
   start_new_call R repr input s =
     (Inr (JStr ''Failed to start call due to invalid input: destination/to_number is required.''), s)"
  by (simp add: start_new_call_def)

lemma start_new_call_given_did:
  "truthy (resolved_destination input) \<Longrightarrow> truthy (resolved_did_number input) \<Longrightarrow>
   start_new_call R repr input s = post_call R input (resolved_did_number input) s"
  by (simp add: start_new_call_def)

lemma start_new_call_auto_select:
  "truthy (resolved_destination input) \<Longrightarrow> \<not> truthy (resolved_did_number input) \<Longrightarrow>
   start_new_call R repr input s =
     (if \<not> truthy (fst (auto_select_did R repr (resolved_did_number input) s))
      then (Inr (JStr ''Failed to start call: did_number/from_number is required (no default DID available).''),
            snd (auto_select_did R repr (resolved_did_number input) s))
      else post_call R input (fst (auto_select_did R repr (resolved_did_number input) s))
             (snd (auto_select_did R repr (resolved_did_number input) s)))"
  by (simp add: start_new_call_def split: prod.splits)

lemma issued_post_call_after:
  "issued s (post_call R input d (s\<lparr>sent := sent s @ l\<rparr>)) =
     l @ [build_request s ''POST'' ''/api/call'' None (Some (assemble_payload input d))]"
  by (simp add: issued_def post_call_snd)

lemma issued_post_call:
  "issued s (post_call R input d s) =
     [build_request s ''POST'' ''/api/call'' None (Some (assemble_payload input d))]"
  by (simp add: issued_def post_call_snd)

lemma start_new_call_issued_call:
  assumes "r \<in> set (issued s (start_new_call R repr input s))"
    and "req_url r = BASE_URL s @ ''/api/call''"
  shows "\<exists>d. truthy d \<and> r = build_request s ''POST'' ''/api/call'' None (Some (assemble_payload input d))"
proof (cases "truthy (resolved_destination input)")
  case False
  with assms show ?thesis by (simp add: start_new_call_no_destination)
next
  case dest: True
  show ?thesis
  proof (cases "truthy (resolved_did_number input)")
    case True
    with dest assms show ?thesis
      by (auto simp: start_new_call_given_did issued_post_call)
  next
    case False
    with dest assms show ?thesis
      by (auto simp: start_new_call_auto_select auto_select_did_eq issued_post_call_after
               split: if_splits)
  qed
qed

section \<open>Validation before any network call\<close>

text \<open>
  Claim C2. When \<^verbatim>\<open>destination\<close> and \<^verbatim>\<open>to_number\<close> are both absent, \<^verbatim>\<open>start_new_call\<close>
  returns the validation message at once and the process is unchanged: no request of any
  kind was handed to the network.
\<close>

theorem start_new_call_requires_destination:
  assumes "destination input = None" and "to_number input = None"
  shows "start_new_call R repr input s =
           (Inr (JStr ''Failed to start call due to invalid input: destination/to_number is required.''), s)
         \<and> issued s (start_new_call R repr input s) = []"
  using assms
  by (simp add: start_new_call_no_destination resolved_destination_def py_or_def opt_str_def)

theorem start_new_call_requires_destination_witness:
  "destination input_no_destination = None \<and> to_number input_no_destination = None
   \<and> start_new_call (scripted [ok_response]) example_repr input_no_destination example_process =
       (Inr (JStr ''Failed to start call due to invalid input: destination/to_number is required.''),
        example_process)"
  using start_new_call_requires_destination
          [of input_no_destination "scripted [ok_response]" example_repr example_process]
  by (simp add: input_no_destination_def)

section \<open>The payload\<close>

text \<open>
  Claim C4. Whenever \<^verbatim>\<open>start_new_call\<close> posts to \<^verbatim>\<open>/api/call\<close>, the keys of the body are
  \<^verbatim>\<open>destination\<close>, \<^verbatim>\<open>did_number\<close>, \<^verbatim>\<open>ai_client\<close>, \<^verbatim>\<open>system_prompt\<close>, \<^verbatim>\<open>greeting_text\<close>,
  followed by \<^verbatim>\<open>script_id\<close> exactly when the input has one and by \<^verbatim>\<open>metadata\<close> exactly when
  the input has one. An absent optional field is not a key of the body.
\<close>

theorem payload_keys:
  "\<forall>r \<in> set (issued s (start_new_call R repr input s)).
     req_url r = BASE_URL s @ ''/api/call'' \<longrightarrow>
       (\<exists>payload. req_method r = ''POST'' \<and> req_json r = Some payload
          \<and> map fst payload =
              [''destination'', ''did_number'', ''ai_client'', ''system_prompt'', ''greeting_text'']
              @ (if script_id input = None then [] else [''script_id''])
              @ (if metadata input = None then [] else [''metadata'']))"
proof (intro ballI impI)
  fix r
  assume "r \<in> set (issued s (start_new_call R repr input s))"
    and "req_url r = BASE_URL s @ ''/api/call''"
  then obtain d where
    "r = build_request s ''POST'' ''/api/call'' None (Some (assemble_payload input d))"
    using start_new_call_issued_call by blast
  then show "\<exists>payload. req_method r = ''POST'' \<and> req_json r = Some payload
          \<and> map fst payload =
              [''destination'', ''did_number'', ''ai_client'', ''system_prompt'', ''greeting_text'']
              @ (if script_id input = None then [] else [''script_id''])
              @ (if metadata input = None then [] else [''metadata''])"
    by (simp add: keys_assemble_payload split: option.splits)
qed

lemma truthy_resolved_input_with_script:
  "truthy (resolved_destination input_with_script)"
  "truthy (resolved_did_number input_with_script)"
  by (simp_all add: input_with_script_def resolved_destination_def resolved_did_number_def
        py_or_def opt_str_def)

theorem payload_keys_witness:
  "\<exists>r \<in> set (issued example_process
                 (start_new_call (scripted [ok_response]) example_repr input_with_script example_process)).
     req_url r = BASE_URL example_process @ ''/api/call''
     \<and> (\<exists>payload. req_method r = ''POST'' \<and> req_json r = Some payload
          \<and> map fst payload =
               [''destination'', ''did_number'', ''ai_client'', ''system_prompt'', ''greeting_text'',
                ''script_id''])"
proof -
  let ?run = "start_new_call (scripted [ok_response]) example_repr input_with_script example_process"
  let ?r = "build_request example_process ''POST'' ''/api/call'' None
              (Some (assemble_payload input_with_script (resolved_did_number input_with_script)))"
  have sent: "issued example_process ?run = [?r]"
    by (simp add: start_new_call_given_did truthy_resolved_input_with_script issued_post_call)
  have "script_id input_with_script \<noteq> None" "metadata input_with_script = None"
    by (simp_all add: input_with_script_def)
  with sent payload_keys [of example_process "scripted [ok_response]" example_repr input_with_script]
  show ?thesis by simp
qed

lemma start_new_call_issued_call_did:
  assumes "r \<in> set (issued s (start_new_call R repr input s))"
    and "req_url r = BASE_URL s @ ''/api/call''"
  shows "\<exists>d. truthy d \<and> (truthy (resolved_did_number input) \<longrightarrow> d = resolved_did_number input)
           \<and> r = build_request s ''POST'' ''/api/call'' None (Some (assemble_payload input d))"
proof (cases "truthy (resolved_destination input)")
  case False
  with assms show ?thesis by (simp add: start_new_call_no_destination)
next
  case dest: True
  show ?thesis
  proof (cases "truthy (resolved_did_number input)")
    case True
    with dest assms show ?thesis
      by (auto simp: start_new_call_given_did issued_post_call)
  next
    case False
    with dest assms show ?thesis
      by (auto simp: start_new_call_auto_select auto_select_did_eq issued_post_call_after
               split: if_splits)
  qed
qed

lemma map_of_assemble_payload:
  "map_of (assemble_payload input d) ''destination'' = Some (resolved_destination input)"
  "map_of (assemble_payload input d) ''did_number'' = Some d"
  "map_of (assemble_payload input d) ''ai_client'' = Some (resolved_ai_client input)"
  "map_of (assemble_payload input d) ''system_prompt'' = Some (resolved_system_prompt input)"
  "map_of (assemble_payload input d) ''greeting_text'' = Some (resolved_greeting_text input)"
  by (simp_all add: assemble_payload_def Let_def update_conv' split: option.splits)

section \<open>Aliases and defaults\<close>

text \<open>
  Claim C8, as stated, fails. An input with \<^verbatim>\<open>destination=""\<close> and
  \<^verbatim>\<open>to_number="08069256212"\<close> has both fields present, and the resolved destination is the
  alias, not the direct field, because \<^verbatim>\<open>or\<close> takes its right operand whenever the left one
  is falsy; likewise for \<^verbatim>\<open>did_number=""\<close> and \<^verbatim>\<open>from_number\<close>. The run below posts the two
  aliases.
\<close>

theorem direct_field_counterexample:
  "destination input_empty_direct = Some '''' \<and> to_number input_empty_direct = Some ''08069256212''
   \<and> resolved_destination input_empty_direct = JStr ''08069256212''
   \<and> did_number input_empty_direct = Some '''' \<and> from_number input_empty_direct = Some ''+15550002222''
   \<and> resolved_did_number input_empty_direct = JStr ''+15550002222''
   \<and> issued example_process
        (start_new_call (scripted [ok_response]) example_repr input_empty_direct example_process) =
       [build_request example_process ''POST'' ''/api/call'' None
          (Some [(''destination'', JStr ''08069256212''),
                 (''did_number'', JStr ''+15550002222''),
                 (''ai_client'', JStr ''client1''),
                 (''system_prompt'', JStr ''p''),
                 (''greeting_text'', JStr ''g'')])]"
proof -
  have r: "resolved_destination input_empty_direct = JStr ''08069256212''"
       "resolved_did_number input_empty_direct = JStr ''+15550002222''"
    by (simp_all add: input_empty_direct_def resolved_destination_def resolved_did_number_def
          py_or_def opt_str_def)
  have p: "assemble_payload input_empty_direct (JStr ''+15550002222'') =
             [(''destination'', JStr ''08069256212''),
              (''did_number'', JStr ''+15550002222''),
              (''ai_client'', JStr ''client1''),
              (''system_prompt'', JStr ''p''),
              (''greeting_text'', JStr ''g'')]"
    by (simp add: assemble_payload_def r resolved_ai_client_def resolved_system_prompt_def
          resolved_greeting_text_def py_or_def opt_str_def)
       (simp add: input_empty_direct_def)
  show ?thesis
    by (simp add: r start_new_call_given_did issued_post_call p)
       (simp add: input_empty_direct_def)
qed

text \<open>
  Claim C8, amended. The direct field wins over the legacy alias when it is present and not
  the empty string, whatever the alias is; a direct field that is present but empty gives
  way to the alias. The resolved destination is the one posted to \<^verbatim>\<open>/api/call\<close>, and so is
  the resolved DID when there is one.
\<close>

theorem direct_field_wins_unless_empty:
  "(destination input = Some d \<longrightarrow>
      resolved_destination input = (if d = [] then opt_str (to_number input) else JStr d))
   \<and> (did_number input = Some n \<longrightarrow>
      resolved_did_number input = (if n = [] then opt_str (from_number input) else JStr n))
   \<and> (\<forall>r \<in> set (issued s (start_new_call R repr input s)).
        req_url r = BASE_URL s @ ''/api/call'' \<longrightarrow>
          (\<exists>payload. req_json r = Some payload
             \<and> map_of payload ''destination'' = Some (resolved_destination input)
             \<and> (truthy (resolved_did_number input) \<longrightarrow>
                  map_of payload ''did_number'' = Some (resolved_did_number input))))"
proof (intro conjI ballI impI)
  assume "destination input = Some d"
  then show "resolved_destination input = (if d = [] then opt_str (to_number input) else JStr d)"
    by (simp add: resolved_destination_def py_or_def opt_str_def)
next
  assume "did_number input = Some n"
  then show "resolved_did_number input = (if n = [] then opt_str (from_number input) else JStr n)"
    by (simp add: resolved_did_number_def py_or_def opt_str_def)
next
  fix r
  assume "r \<in> set (issued s (start_new_call R repr input s))"
    and "req_url r = BASE_URL s @ ''/api/call''"
  then obtain dn where
    "truthy (resolved_did_number input) \<longrightarrow> dn = resolved_did_number input"
    "r = build_request s ''POST'' ''/api/call'' None (Some (assemble_payload input dn))"
    using start_new_call_issued_call_did by blast
  then show "\<exists>payload. req_json r = Some payload
             \<and> map_of payload ''destination'' = Some (resolved_destination input)
             \<and> (truthy (resolved_did_number input) \<longrightarrow>
                  map_of payload ''did_number'' = Some (resolved_did_number input))"
    by (simp add: map_of_assemble_payload)
qed

theorem direct_field_wins_unless_empty_witness:
  "destination input_both_given = Some ''08069256212''
   \<and> resolved_destination input_both_given = JStr ''08069256212''
   \<and> did_number input_both_given = Some ''+15550001111''
   \<and> resolved_did_number input_both_given = JStr ''+15550001111''
   \<and> (\<exists>r \<in> set (issued example_process
          (start_new_call (scripted [ok_response]) example_repr input_both_given example_process)).
        req_url r = BASE_URL example_process @ ''/api/call''
        \<and> (\<exists>payload. req_json r = Some payload
             \<and> map_of payload ''destination'' = Some (JStr ''08069256212'')
             \<and> map_of payload ''did_number'' = Some (JStr ''+15550001111'')))"
proof -
  let ?run = "start_new_call (scripted [ok_response]) example_repr input_both_given example_process"
  have f: "destination input_both_given = Some ''08069256212''"
          "did_number input_both_given = Some ''+15550001111''"
    by (simp_all add: input_both_given_def)
  note t = direct_field_wins_unless_empty
             [of input_both_given "''08069256212''" "''+15550001111''" example_process
                 "scripted [ok_response]" example_repr]
  from t f have r: "resolved_destination input_both_given = JStr ''08069256212''"
       "resolved_did_number input_both_given = JStr ''+15550001111''"
    by simp_all
  have sent: "issued example_process ?run =
      [build_request example_process ''POST'' ''/api/call'' None
         (Some (assemble_payload input_both_given (JStr ''+15550001111'')))]"
    by (simp add: start_new_call_given_did r issued_post_call)
  from t f r sent show ?thesis by simp
qed

text \<open>
  Claim C5, as stated, fails. With \<^verbatim>\<open>ai_client=""\<close>, \<^verbatim>\<open>system_prompt=""\<close> and
  \<^verbatim>\<open>greeting_text=""\<close>, all three present and empty, the body posted to \<^verbatim>\<open>/api/call\<close>
  carries the three defaults, not the empty strings.
\<close>

theorem empty_string_default_counterexample:
  "ai_client input_empty_strings = Some '''' \<and> system_prompt input_empty_strings = ''''
   \<and> greeting_text input_empty_strings = ''''
   \<and> issued example_process
        (start_new_call (scripted [ok_response]) example_repr input_empty_strings example_process) =
       [build_request example_process ''POST'' ''/api/call'' None
          (Some [(''destination'', JStr ''08069256212''),
                 (''did_number'', JStr ''+15550001111''),
                 (''ai_client'', JStr ''client1''),
                 (''system_prompt'', JStr ''You are an AI assistant helping with a phone call.''),
                 (''greeting_text'', JStr ''Hello! This is an automated call.'')])]"
proof -
  have r: "resolved_destination input_empty_strings = JStr ''08069256212''"
       "resolved_did_number input_empty_strings = JStr ''+15550001111''"
    by (simp_all add: input_empty_strings_def resolved_destination_def resolved_did_number_def
          py_or_def opt_str_def)
  have p: "assemble_payload input_empty_strings (JStr ''+15550001111'') =
             [(''destination'', JStr ''08069256212''),
              (''did_number'', JStr ''+15550001111''),
              (''ai_client'', JStr ''client1''),
              (''system_prompt'', JStr ''You are an AI assistant helping with a phone call.''),
              (''greeting_text'', JStr ''Hello! This is an automated call.'')]"
    by (simp add: assemble_payload_def r resolved_ai_client_def resolved_system_prompt_def
          resolved_greeting_text_def py_or_def opt_str_def)
       (simp add: input_empty_strings_def)
  show ?thesis
    by (simp add: r start_new_call_given_did issued_post_call p)
       (simp add: input_empty_strings_def)
qed

text \<open>
  Claim C5, amended. The default of \<^verbatim>\<open>ai_client\<close> is applied when the field is absent or
  the empty string, the defaults of \<^verbatim>\<open>system_prompt\<close> and \<^verbatim>\<open>greeting_text\<close> (required
  strings, never absent) when the field is the empty string; a value that is not empty is
  kept, and the resolved values are the ones posted to \<^verbatim>\<open>/api/call\<close>.
\<close>

theorem defaults_when_absent_or_empty:
  "resolved_ai_client input =
     (case ai_client input of
        None \<Rightarrow> JStr ''client1''
      | Some a \<Rightarrow> if a = [] then JStr ''client1'' else JStr a)
   \<and> resolved_system_prompt input =
     (if system_prompt input = [] then JStr ''You are an AI assistant helping with a phone call.''
      else JStr (system_prompt input))
   \<and> resolved_greeting_text input =
     (if greeting_text input = [] then JStr ''Hello! This is an automated call.''
      else JStr (greeting_text input))
   \<and> (\<forall>r \<in> set (issued s (start_new_call R repr input s)).
        req_url r = BASE_URL s @ ''/api/call'' \<longrightarrow>
          (\<exists>payload. req_json r = Some payload
             \<and> map_of payload ''ai_client'' = Some (resolved_ai_client input)
             \<and> map_of payload ''system_prompt'' = Some (resolved_system_prompt input)
             \<and> map_of payload ''greeting_text'' = Some (resolved_greeting_text input)))"
proof (intro conjI ballI impI)
  show "resolved_ai_client input =
     (case ai_client input of
        None \<Rightarrow> JStr ''client1''
      | Some a \<Rightarrow> if a = [] then JStr ''client1'' else JStr a)"
    by (simp add: resolved_ai_client_def py_or_def opt_str_def split: option.splits)
next
  show "resolved_system_prompt input =
     (if system_prompt input = [] then JStr ''You are an AI assistant helping with a phone call.''
      else JStr (system_prompt input))"
    by (simp add: resolved_system_prompt_def py_or_def)
next
  show "resolved_greeting_text input =
     (if greeting_text input = [] then JStr ''Hello! This is an automated call.''
      else JStr (greeting_text input))"
    by (simp add: resolved_greeting_text_def py_or_def)
next
  fix r
  assume "r \<in> set (issued s (start_new_call R repr input s))"
    and "req_url r = BASE_URL s @ ''/api/call''"
  then obtain dn where
    "r = build_request s ''POST'' ''/api/call'' None (Some (assemble_payload input dn))"
    using start_new_call_issued_call_did by blast
  then show "\<exists>payload. req_json r = Some payload
             \<and> map_of payload ''ai_client'' = Some (resolved_ai_client input)
             \<and> map_of payload ''system_prompt'' = Some (resolved_system_prompt input)
             \<and> map_of payload ''greeting_text'' = Some (resolved_greeting_text input)"
    by (simp add: map_of_assemble_payload)
qed

theorem defaults_when_absent_or_empty_witness:
  "\<exists>r \<in> set (issued example_process
          (start_new_call (scripted [ok_response]) example_repr input_with_script example_process)).
        req_url r = BASE_URL example_process @ ''/api/call''
        \<and> (\<exists>payload. req_json r = Some payload
             \<and> map_of payload ''ai_client'' = Some (JStr ''client2'')
             \<and> map_of payload ''system_prompt'' = Some (JStr ''p'')
             \<and> map_of payload ''greeting_text'' = Some (JStr ''g''))"
proof -
  let ?run = "start_new_call (scripted [ok_response]) example_repr input_with_script example_process"
  note t = defaults_when_absent_or_empty
             [of input_with_script example_process "scripted [ok_response]" example_repr]
  have f: "ai_client input_with_script = Some ''client2''"
          "system_prompt input_with_script = ''p''" "greeting_text input_with_script = ''g''"
    by (simp_all add: input_with_script_def)
  have sent: "issued example_process ?run =
      [build_request example_process ''POST'' ''/api/call'' None
         (Some (assemble_payload input_with_script (resolved_did_number input_with_script)))]"
    by (simp add: start_new_call_given_did truthy_resolved_input_with_script issued_post_call)
  from t f sent show ?thesis by simp
qed

section \<open>Automatic selection of a DID\<close>

lemma resolved_input_to_number_only:
  "resolved_destination input_to_number_only = JStr ''08069256212''"
  "resolved_did_number input_to_number_only = JNull"
  "resolved_ai_client input_to_number_only = JStr ''client1''"
  "resolved_system_prompt input_to_number_only = JStr ''p''"
  "resolved_greeting_text input_to_number_only = JStr ''g''"
  by (simp_all add: input_to_number_only_def resolved_destination_def resolved_did_number_def
        resolved_ai_client_def resolved_system_prompt_def resolved_greeting_text_def
        py_or_def opt_str_def)

lemma fst_make_request:
  "fst (make_request R method endpoint params json_data s) =
     interpret_outcome (R (sent s) (build_request s method endpoint params json_data))"
  by (simp add: make_request_eq)

lemma example_process_sent [simp]: "sent example_process = []"
  by (simp add: example_process_def import_module_def Let_def)

lemma base_url_example_process: "BASE_URL example_process = ''https://apidoc.byteflow.bot''"
  by (simp add: example_process_def import_module_def Let_def)

lemma scripted_first [simp]: "scripted (x # xs) [] req = x"
  by (simp add: scripted_def)

lemma select_first_did_none:
  "did_list did_resp = None \<Longrightarrow> select_first_did repr did_resp d = d"
  by (simp add: select_first_did_def)

lemma select_first_did_first:
  "did_list did_resp = Some (first_did # rest) \<Longrightarrow>
   select_first_did repr did_resp d = did_of_entry repr first_did"
  by (simp add: select_first_did_def)

lemma did_list_Some:
  "did_list did_resp = Some l \<longleftrightarrow> (\<exists>d. did_resp = JDict d \<and> map_of d ''dids'' = Some (JList l))"
  by (auto simp: did_list_def split: jvalue.splits option.splits)

lemma did_list_None:
  "did_list did_resp = None \<longleftrightarrow> (\<forall>d l. did_resp = JDict d \<longrightarrow> map_of d ''dids'' \<noteq> Some (JList l))"
  by (auto simp: did_list_def split: jvalue.splits option.splits)

text \<open>
  Claim C7, as stated, fails. The input has \<^verbatim>\<open>to_number="08069256212"\<close>,
  \<^verbatim>\<open>system_prompt="p"\<close>, \<^verbatim>\<open>greeting_text="g"\<close> and nothing else, and the lookup
  \<^verbatim>\<open>POST /api/validate-and-fetch-dids\<close> succeeds, returning the DID list \<^verbatim>\<open>["+1555..."]\<close>.
  The response is not a \<^verbatim>\<open>dict\<close>, so line 302 leaves the list of DIDs empty: the tool returns
  the message that a DID is required, and the lookup is the only request it sent. Nothing
  is posted to \<^verbatim>\<open>/api/call\<close>.
\<close>

theorem bare_did_list_counterexample:
  "fst (make_request (scripted [bare_list_response, ok_response]) ''POST''
          ''/api/validate-and-fetch-dids'' None None example_process) =
     Inr (JList [JStr ''+1555...''])
   \<and> fst (start_new_call (scripted [bare_list_response, ok_response]) example_repr
            input_to_number_only example_process) =
       Inr (JStr ''Failed to start call: did_number/from_number is required (no default DID available).'')
   \<and> map (\<lambda>r. (req_method r, req_url r))
        (issued example_process
           (start_new_call (scripted [bare_list_response, ok_response]) example_repr
              input_to_number_only example_process)) =
       [(''POST'', ''https://apidoc.byteflow.bot/api/validate-and-fetch-dids'')]"
proof -
  have out: "interpret_outcome bare_list_response = Inr (JList [JStr ''+1555...''])"
    by (simp add: bare_list_response_def interpret_outcome_def raise_for_status_def)
  then have sel: "auto_select_did (scripted [bare_list_response, ok_response]) example_repr JNull
                    example_process =
      (JNull, example_process\<lparr>sent := sent example_process @
          [build_request example_process ''POST'' ''/api/validate-and-fetch-dids'' None None]\<rparr>)"
    by (simp add: auto_select_did_eq select_first_did_def did_list_def)
  have run: "start_new_call (scripted [bare_list_response, ok_response]) example_repr
               input_to_number_only example_process =
      (Inr (JStr ''Failed to start call: did_number/from_number is required (no default DID available).''),
       example_process\<lparr>sent := sent example_process @
          [build_request example_process ''POST'' ''/api/validate-and-fetch-dids'' None None]\<rparr>)"
    by (simp add: start_new_call_auto_select resolved_input_to_number_only sel)
  from out show ?thesis
    by (simp add: fst_make_request run issued_def base_url_example_process)
qed

text \<open>
  Claim C7, amended. With the same input, when the lookup returns an object that holds the
  DID list \<^verbatim>\<open>["+1555..."]\<close> under the key \<^verbatim>\<open>"dids"\<close>, the tool sends that lookup and then one
  \<^verbatim>\<open>POST /api/call\<close> whose body has destination \<^verbatim>\<open>"08069256212"\<close>, the first returned DID as
  \<^verbatim>\<open>did_number\<close>, \<^verbatim>\<open>ai_client\<close> \<^verbatim>\<open>"client1"\<close>, and the prompt and greeting given.
\<close>

theorem start_new_call_auto_selected_did:
  assumes "fst (make_request R ''POST'' ''/api/validate-and-fetch-dids'' None None s) =
             Inr (JDict [(''dids'', JList [JStr ''+1555...''])])"
  shows "issued s (start_new_call R repr input_to_number_only s) =
           [build_request s ''POST'' ''/api/validate-and-fetch-dids'' None None,
            build_request s ''POST'' ''/api/call'' None
              (Some [(''destination'', JStr ''08069256212''),
                     (''did_number'', JStr ''+1555...''),
                     (''ai_client'', JStr ''client1''),
                     (''system_prompt'', JStr ''p''),
                     (''greeting_text'', JStr ''g'')])]"
proof -
  let ?lookup = "build_request s ''POST'' ''/api/validate-and-fetch-dids'' None None"
  from assms have sel:
    "auto_select_did R repr JNull s = (JStr ''+1555...'', s\<lparr>sent := sent s @ [?lookup]\<rparr>)"
    by (simp add: auto_select_did_eq fst_make_request select_first_did_def did_list_def
          did_of_entry_def py_str_def)
  have p: "assemble_payload input_to_number_only (JStr ''+1555...'') =
             [(''destination'', JStr ''08069256212''),
              (''did_number'', JStr ''+1555...''),
              (''ai_client'', JStr ''client1''),
              (''system_prompt'', JStr ''p''),
              (''greeting_text'', JStr ''g'')]"
    by (simp add: assemble_payload_def resolved_input_to_number_only)
       (simp add: input_to_number_only_def)
  show ?thesis
    by (simp add: start_new_call_auto_select resolved_input_to_number_only sel
          issued_post_call_after p)
qed

theorem start_new_call_auto_selected_did_witness:
  "fst (make_request (scripted [dids_response, ok_response]) ''POST''
          ''/api/validate-and-fetch-dids'' None None example_process) =
     Inr (JDict [(''dids'', JList [JStr ''+1555...''])])
   \<and> map (\<lambda>r. (req_method r, req_url r, req_json r))
        (issued example_process
           (start_new_call (scripted [dids_response, ok_response]) example_repr
              input_to_number_only example_process)) =
       [(''POST'', ''https://apidoc.byteflow.bot/api/validate-and-fetch-dids'', None),
        (''POST'', ''https://apidoc.byteflow.bot/api/call'',
           Some [(''destination'', JStr ''08069256212''),
                 (''did_number'', JStr ''+1555...''),
                 (''ai_client'', JStr ''client1''),
                 (''system_prompt'', JStr ''p''),
                 (''greeting_text'', JStr ''g'')])]"
proof -
  have h: "fst (make_request (scripted [dids_response, ok_response]) ''POST''
          ''/api/validate-and-fetch-dids'' None None example_process) =
     Inr (JDict [(''dids'', JList [JStr ''+1555...''])])"
    by (simp add: fst_make_request dids_response_def interpret_outcome_def raise_for_status_def)
  have u: "BASE_URL example_process = ''https://apidoc.byteflow.bot''"
    by (simp add: example_process_def import_module_def Let_def)
  from h u start_new_call_auto_selected_did [OF h, of example_repr]
  show ?thesis by simp
qed

text \<open>
  Claim C10. With \<^verbatim>\<open>did_number\<close> and \<^verbatim>\<open>from_number\<close> both absent and a destination
  resolved (the lookup is attempted only then), if the lookup succeeds and its response is
  not a \<^verbatim>\<open>dict\<close> with a \<^verbatim>\<open>list\<close> under \<^verbatim>\<open>"dids"\<close>, or the first entry of that list is a
  \<^verbatim>\<open>dict\<close> whose \<^verbatim>\<open>"did_number"\<close> is missing or falsy, then no DID is selected: the tool
  returns the message that a DID is required, and the lookup is the only request it sent,
  so nothing was posted to \<^verbatim>\<open>/api/call\<close>.
\<close>

theorem no_did_selected:
  assumes "did_number input = None" and "from_number input = None"
    and "truthy (resolved_destination input)"
    and "fst (make_request R ''POST'' ''/api/validate-and-fetch-dids'' None None s) = Inr did_resp"
    and "(\<forall>d l. did_resp = JDict d \<longrightarrow> map_of d ''dids'' \<noteq> Some (JList l))
         \<or> (\<exists>d fd rest. did_resp = JDict d
               \<and> map_of d ''dids'' = Some (JList (JDict fd # rest))
               \<and> \<not> truthy (dict_get fd ''did_number''))"
  shows "start_new_call R repr input s =
           (Inr (JStr ''Failed to start call: did_number/from_number is required (no default DID available).''),
            s\<lparr>sent := sent s @ [build_request s ''POST'' ''/api/validate-and-fetch-dids'' None None]\<rparr>)"
proof -
  have none: "resolved_did_number input = JNull"
    using assms(1,2) by (simp add: resolved_did_number_def py_or_def opt_str_def)
  have "\<not> truthy (select_first_did repr did_resp JNull)"
    using assms(5)
  proof
    assume "\<forall>d l. did_resp = JDict d \<longrightarrow> map_of d ''dids'' \<noteq> Some (JList l)"
    then have "did_list did_resp = None" by (simp add: did_list_None)
    then show ?thesis by (simp add: select_first_did_none)
  next
    assume "\<exists>d fd rest. did_resp = JDict d
               \<and> map_of d ''dids'' = Some (JList (JDict fd # rest))
               \<and> \<not> truthy (dict_get fd ''did_number'')"
    then obtain fd rest where "did_list did_resp = Some (JDict fd # rest)"
      and "\<not> truthy (dict_get fd ''did_number'')"
      using did_list_Some by blast
    then show ?thesis by (simp add: select_first_did_first did_of_entry_def)
  qed
  with assms(3,4) none show ?thesis
    by (simp add: start_new_call_auto_select auto_select_did_eq fst_make_request)
qed

theorem no_did_selected_witness:
  "did_number input_to_number_only = None \<and> from_number input_to_number_only = None
   \<and> fst (make_request (scripted [bare_list_response, ok_response]) ''POST''
            ''/api/validate-and-fetch-dids'' None None example_process) =
       Inr (JList [JStr ''+1555...''])
   \<and> fst (start_new_call (scripted [bare_list_response, ok_response]) example_repr
            input_to_number_only example_process) =
       Inr (JStr ''Failed to start call: did_number/from_number is required (no default DID available).'')
   \<and> map req_url (sent (snd (start_new_call (scripted [bare_list_response, ok_response]) example_repr
            input_to_number_only example_process))) =
       [''https://apidoc.byteflow.bot/api/validate-and-fetch-dids'']
   \<and> fst (make_request (scripted [unnumbered_response, ok_response]) ''POST''
            ''/api/validate-and-fetch-dids'' None None example_process) =
       Inr (JDict [(''dids'', JList [JDict [(''did_number'', JStr ''''), (''label'', JStr ''main'')]])])
   \<and> fst (start_new_call (scripted [unnumbered_response, ok_response]) example_repr
            input_to_number_only example_process) =
       Inr (JStr ''Failed to start call: did_number/from_number is required (no default DID available).'')
   \<and> map req_url (sent (snd (start_new_call (scripted [unnumbered_response, ok_response]) example_repr
            input_to_number_only example_process))) =
       [''https://apidoc.byteflow.bot/api/validate-and-fetch-dids'']"
proof -
  have i: "did_number input_to_number_only = None" "from_number input_to_number_only = None"
    by (simp_all add: input_to_number_only_def)
  have d: "truthy (resolved_destination input_to_number_only)"
    by (simp add: resolved_input_to_number_only)
  have u: "BASE_URL example_process = ''https://apidoc.byteflow.bot''"
    by (simp add: example_process_def import_module_def Let_def)
  have h1: "fst (make_request (scripted [bare_list_response, ok_response]) ''POST''
            ''/api/validate-and-fetch-dids'' None None example_process) =
       Inr (JList [JStr ''+1555...''])"
    by (simp add: fst_make_request bare_list_response_def interpret_outcome_def raise_for_status_def)
  have h2: "fst (make_request (scripted [unnumbered_response, ok_response]) ''POST''
            ''/api/validate-and-fetch-dids'' None None example_process) =
       Inr (JDict [(''dids'', JList [JDict [(''did_number'', JStr ''''), (''label'', JStr ''main'')]])])"
    by (simp add: fst_make_request unnumbered_response_def interpret_outcome_def raise_for_status_def)
  have c1: "(\<forall>d l. JList [JStr ''+1555...''] = JDict d \<longrightarrow> map_of d ''dids'' \<noteq> Some (JList l))
         \<or> (\<exists>d fd rest. JList [JStr ''+1555...''] = JDict d
               \<and> map_of d ''dids'' = Some (JList (JDict fd # rest))
               \<and> \<not> truthy (dict_get fd ''did_number''))"
    by simp
  have c2: "(\<forall>d l. JDict [(''dids'', JList [JDict [(''did_number'', JStr ''''), (''label'', JStr ''main'')]])] = JDict d
                \<longrightarrow> map_of d ''dids'' \<noteq> Some (JList l))
         \<or> (\<exists>d fd rest. JDict [(''dids'', JList [JDict [(''did_number'', JStr ''''), (''label'', JStr ''main'')]])] = JDict d
               \<and> map_of d ''dids'' = Some (JList (JDict fd # rest))
               \<and> \<not> truthy (dict_get fd ''did_number''))"
    by (simp add: dict_get_def)
  from i u h1 h2
    no_did_selected [OF i d h1 c1, of example_repr]
    no_did_selected [OF i d h2 c2, of example_repr]
  show ?thesis by simp
qed

lemma scripted_second [simp]: "scripted (x # y # xs) [r] req = y"
  by (simp add: scripted_def)

lemma auto_select_requests:
  assumes "truthy (resolved_destination input)" and "\<not> truthy (resolved_did_number input)"
  shows "[r \<leftarrow> issued s (start_new_call R repr input s).
            req_url r = BASE_URL s @ ''/api/validate-and-fetch-dids''] =
           [build_request s ''POST'' ''/api/validate-and-fetch-dids'' None None]
         \<and> (\<forall>r \<in> set (issued s (start_new_call R repr input s)).
               req_url r \<noteq> BASE_URL s @ ''/api/did/my-dids''
               \<and> req_url r \<noteq> BASE_URL s @ ''/api/dids'')"
proof (cases "truthy (fst (auto_select_did R repr (resolved_did_number input) s))")
  case True
  with assms have "issued s (start_new_call R repr input s) =
             [build_request s ''POST'' ''/api/validate-and-fetch-dids'' None None,
              build_request s ''POST'' ''/api/call'' None
                (Some (assemble_payload input
                         (fst (auto_select_did R repr (resolved_did_number input) s))))]"
    by (simp add: start_new_call_auto_select) (simp add: auto_select_did_eq issued_post_call_after)
  then show ?thesis by simp
next
  case False
  with assms have "issued s (start_new_call R repr input s) =
             [build_request s ''POST'' ''/api/validate-and-fetch-dids'' None None]"
    by (simp add: start_new_call_auto_select) (simp add: auto_select_did_eq)
  then show ?thesis by simp
qed

text \<open>
  Claim C3. Once a destination is resolved and no DID is (step 3 of the orchestrator), the
  inner \<^verbatim>\<open>try\<close> sends exactly one request, \<^verbatim>\<open>POST /api/validate-and-fetch-dids\<close>. If that
  request fails, the failure is swallowed and the variable keeps its falsy value. If it
  returns a \<^verbatim>\<open>dict\<close> with a non-empty \<^verbatim>\<open>list\<close> under \<^verbatim>\<open>"dids"\<close>, the first entry is taken:
  when it is a \<^verbatim>\<open>dict\<close>, the value under its key \<^verbatim>\<open>"did_number"\<close> (\<^verbatim>\<open>None\<close> without the key);
  otherwise its \<^verbatim>\<open>str\<close>, which is the string itself, \<^verbatim>\<open>"None"\<close>, \<^verbatim>\<open>"True"\<close> or \<^verbatim>\<open>"False"\<close>, the
  decimal digits of an integer, and the \<^verbatim>\<open>repr\<close> of a float or a list. If the variable is
  still falsy afterwards, the tool returns the message that a DID is required and the lookup
  is the only request it sent; otherwise the lookup is followed by one \<^verbatim>\<open>POST /api/call\<close>
  whose body has the selected DID under \<^verbatim>\<open>did_number\<close>. In neither case is \<^verbatim>\<open>/api/did/my-dids\<close> or \<^verbatim>\<open>/api/dids\<close> requested.
\<close>

theorem auto_select_is_one_lookup:
  assumes "truthy (resolved_destination input)" and "\<not> truthy (resolved_did_number input)"
  shows
    "snd (auto_select_did R repr (resolved_did_number input) s) =
       s\<lparr>sent := sent s @ [build_request s ''POST'' ''/api/validate-and-fetch-dids'' None None]\<rparr>
     \<and> (\<forall>e. fst (make_request R ''POST'' ''/api/validate-and-fetch-dids'' None None s) = Inl e \<longrightarrow>
           fst (auto_select_did R repr (resolved_did_number input) s) = resolved_did_number input)
     \<and> (\<forall>d first_did rest.
           fst (make_request R ''POST'' ''/api/validate-and-fetch-dids'' None None s) = Inr (JDict d)
           \<and> map_of d ''dids'' = Some (JList (first_did # rest)) \<longrightarrow>
           fst (auto_select_did R repr (resolved_did_number input) s) =
             (case first_did of
                JDict fd \<Rightarrow> (case map_of fd ''did_number'' of None \<Rightarrow> JNull | Some v \<Rightarrow> v)
              | JStr x \<Rightarrow> JStr x
              | JNull \<Rightarrow> JStr ''None''
              | JBool b \<Rightarrow> JStr (if b then ''True'' else ''False'')
              | JInt i \<Rightarrow> JStr (str_int i)
              | JFloat f \<Rightarrow> JStr (repr (JFloat f))
              | JList l \<Rightarrow> JStr (repr (JList l))))
     \<and> (\<not> truthy (fst (auto_select_did R repr (resolved_did_number input) s)) \<longrightarrow>
           start_new_call R repr input s =
             (Inr (JStr ''Failed to start call: did_number/from_number is required (no default DID available).''),
              s\<lparr>sent := sent s @ [build_request s ''POST'' ''/api/validate-and-fetch-dids'' None None]\<rparr>))
     \<and> (truthy (fst (auto_select_did R repr (resolved_did_number input) s)) \<longrightarrow>
           issued s (start_new_call R repr input s) =
             [build_request s ''POST'' ''/api/validate-and-fetch-dids'' None None,
              build_request s ''POST'' ''/api/call'' None
                (Some (assemble_payload input
                         (fst (auto_select_did R repr (resolved_did_number input) s))))])
     \<and> (truthy (fst (auto_select_did R repr (resolved_did_number input) s)) \<longrightarrow>
           (\<exists>payload. req_json (last (issued s (start_new_call R repr input s))) = Some payload
              \<and> map_of payload ''did_number'' =
                  Some (fst (auto_select_did R repr (resolved_did_number input) s))))
     \<and> [r \<leftarrow> issued s (start_new_call R repr input s).
          req_url r = BASE_URL s @ ''/api/validate-and-fetch-dids''] =
         [build_request s ''POST'' ''/api/validate-and-fetch-dids'' None None]
     \<and> (\<forall>r \<in> set (issued s (start_new_call R repr input s)).
           req_url r \<noteq> BASE_URL s @ ''/api/did/my-dids''
           \<and> req_url r \<noteq> BASE_URL s @ ''/api/dids'')"
proof (intro conjI allI impI)
  show "snd (auto_select_did R repr (resolved_did_number input) s) =
       s\<lparr>sent := sent s @ [build_request s ''POST'' ''/api/validate-and-fetch-dids'' None None]\<rparr>"
    by (simp add: auto_select_did_eq)
next
  fix e
  assume "fst (make_request R ''POST'' ''/api/validate-and-fetch-dids'' None None s) = Inl e"
  then show "fst (auto_select_did R repr (resolved_did_number input) s) = resolved_did_number input"
    by (simp add: auto_select_did_eq fst_make_request)
next
  fix d first_did rest
  assume "fst (make_request R ''POST'' ''/api/validate-and-fetch-dids'' None None s) = Inr (JDict d)
           \<and> map_of d ''dids'' = Some (JList (first_did # rest))"
  then have out: "interpret_outcome (R (sent s)
                    (build_request s ''POST'' ''/api/validate-and-fetch-dids'' None None)) = Inr (JDict d)"
    and "did_list (JDict d) = Some (first_did # rest)"
    by (simp_all add: fst_make_request did_list_Some)
  then show "fst (auto_select_did R repr (resolved_did_number input) s) =
             (case first_did of
                JDict fd \<Rightarrow> (case map_of fd ''did_number'' of None \<Rightarrow> JNull | Some v \<Rightarrow> v)
              | JStr x \<Rightarrow> JStr x
              | JNull \<Rightarrow> JStr ''None''
              | JBool b \<Rightarrow> JStr (if b then ''True'' else ''False'')
              | JInt i \<Rightarrow> JStr (str_int i)
              | JFloat f \<Rightarrow> JStr (repr (JFloat f))
              | JList l \<Rightarrow> JStr (repr (JList l)))"
    by (simp add: auto_select_did_eq select_first_did_first did_of_entry_def dict_get_def
          py_str_def split: jvalue.splits option.splits)
next
  assume "\<not> truthy (fst (auto_select_did R repr (resolved_did_number input) s))"
  with assms show "start_new_call R repr input s =
             (Inr (JStr ''Failed to start call: did_number/from_number is required (no default DID available).''),
              s\<lparr>sent := sent s @ [build_request s ''POST'' ''/api/validate-and-fetch-dids'' None None]\<rparr>)"
    by (simp add: start_new_call_auto_select) (simp add: auto_select_did_eq)
next
  assume "truthy (fst (auto_select_did R repr (resolved_did_number input) s))"
  with assms show "issued s (start_new_call R repr input s) =
             [build_request s ''POST'' ''/api/validate-and-fetch-dids'' None None,
              build_request s ''POST'' ''/api/call'' None
                (Some (assemble_payload input
                         (fst (auto_select_did R repr (resolved_did_number input) s))))]"
    by (simp add: start_new_call_auto_select) (simp add: auto_select_did_eq issued_post_call_after)
next
  assume "truthy (fst (auto_select_did R repr (resolved_did_number input) s))"
  with assms have "issued s (start_new_call R repr input s) =
             [build_request s ''POST'' ''/api/validate-and-fetch-dids'' None None,
              build_request s ''POST'' ''/api/call'' None
                (Some (assemble_payload input
                         (fst (auto_select_did R repr (resolved_did_number input) s))))]"
    by (simp add: start_new_call_auto_select) (simp add: auto_select_did_eq issued_post_call_after)
  then show "\<exists>payload. req_json (last (issued s (start_new_call R repr input s))) = Some payload
              \<and> map_of payload ''did_number'' =
                  Some (fst (auto_select_did R repr (resolved_did_number input) s))"
    by (simp add: map_of_assemble_payload)
next
  show "[r \<leftarrow> issued s (start_new_call R repr input s).
          req_url r = BASE_URL s @ ''/api/validate-and-fetch-dids''] =
         [build_request s ''POST'' ''/api/validate-and-fetch-dids'' None None]"
    using auto_select_requests [OF assms] by simp
next
  show "\<forall>r \<in> set (issued s (start_new_call R repr input s)).
           req_url r \<noteq> BASE_URL s @ ''/api/did/my-dids''
           \<and> req_url r \<noteq> BASE_URL s @ ''/api/dids''"
    using auto_select_requests [OF assms] by simp
qed

lemma assemble_payload_to_number_only:
  "assemble_payload input_to_number_only d =
     [(''destination'', JStr ''08069256212''),
      (''did_number'', d),
      (''ai_client'', JStr ''client1''),
      (''system_prompt'', JStr ''p''),
      (''greeting_text'', JStr ''g'')]"
  by (simp add: assemble_payload_def resolved_input_to_number_only)
     (simp add: input_to_number_only_def)

lemma str_int_example: "str_int 8069256000 = ''8069256000''"
  by (simp add: str_int_def str_nat.simps digit_char_def)

theorem auto_select_is_one_lookup_witness:
  "truthy (resolved_destination input_to_number_only)
   \<and> \<not> truthy (resolved_did_number input_to_number_only)
   \<and> fst (make_request (scripted [timeout_outcome, ok_response]) ''POST''
            ''/api/validate-and-fetch-dids'' None None example_process) =
       Inl (ByteflowAPIError ''Byteflow API Timeout Error: read timed out'' None None)
   \<and> fst (start_new_call (scripted [timeout_outcome, ok_response]) example_repr
            input_to_number_only example_process) =
       Inr (JStr ''Failed to start call: did_number/from_number is required (no default DID available).'')
   \<and> map (\<lambda>r. (req_method r, req_url r))
        (sent (snd (start_new_call (scripted [timeout_outcome, ok_response]) example_repr
            input_to_number_only example_process))) =
       [(''POST'', ''https://apidoc.byteflow.bot/api/validate-and-fetch-dids'')]
   \<and> fst (make_request (scripted [object_dids_response, ok_response]) ''POST''
            ''/api/validate-and-fetch-dids'' None None example_process) =
       Inr (JDict [(''dids'',
              JList [JDict [(''label'', JStr ''main''), (''did_number'', JStr ''+15550003333'')],
                     JStr ''+1555...''])])
   \<and> map (\<lambda>r. (req_method r, req_url r, req_json r))
        (issued example_process
           (start_new_call (scripted [object_dids_response, ok_response]) example_repr
              input_to_number_only example_process)) =
       [(''POST'', ''https://apidoc.byteflow.bot/api/validate-and-fetch-dids'', None),
        (''POST'', ''https://apidoc.byteflow.bot/api/call'',
           Some [(''destination'', JStr ''08069256212''),
                 (''did_number'', JStr ''+15550003333''),
                 (''ai_client'', JStr ''client1''),
                 (''system_prompt'', JStr ''p''),
                 (''greeting_text'', JStr ''g'')])]
   \<and> fst (make_request (scripted [number_dids_response, ok_response]) ''POST''
            ''/api/validate-and-fetch-dids'' None None example_process) =
       Inr (JDict [(''dids'', JList [JInt 8069256000, JStr ''+1555...''])])
   \<and> map (\<lambda>r. (req_method r, req_url r, req_json r))
        (issued example_process
           (start_new_call (scripted [number_dids_response, ok_response]) example_repr
              input_to_number_only example_process)) =
       [(''POST'', ''https://apidoc.byteflow.bot/api/validate-and-fetch-dids'', None),
        (''POST'', ''https://apidoc.byteflow.bot/api/call'',
           Some [(''destination'', JStr ''08069256212''),
                 (''did_number'', JStr ''8069256000''),
                 (''ai_client'', JStr ''client1''),
                 (''system_prompt'', JStr ''p''),
                 (''greeting_text'', JStr ''g'')])]"
proof -
  have a: "truthy (resolved_destination input_to_number_only)"
          "\<not> truthy (resolved_did_number input_to_number_only)"
    by (simp_all add: resolved_input_to_number_only)
  have h1: "fst (make_request (scripted [timeout_outcome, ok_response]) ''POST''
            ''/api/validate-and-fetch-dids'' None None example_process) =
       Inl (ByteflowAPIError ''Byteflow API Timeout Error: read timed out'' None None)"
    by (simp add: fst_make_request timeout_outcome_def interpret_outcome_def)
  have h2: "fst (make_request (scripted [object_dids_response, ok_response]) ''POST''
            ''/api/validate-and-fetch-dids'' None None example_process) =
       Inr (JDict [(''dids'',
              JList [JDict [(''label'', JStr ''main''), (''did_number'', JStr ''+15550003333'')],
                     JStr ''+1555...''])])"
    by (simp add: fst_make_request object_dids_response_def interpret_outcome_def
          raise_for_status_def)
  have h3: "fst (make_request (scripted [number_dids_response, ok_response]) ''POST''
            ''/api/validate-and-fetch-dids'' None None example_process) =
       Inr (JDict [(''dids'', JList [JInt 8069256000, JStr ''+1555...''])])"
    by (simp add: fst_make_request number_dids_response_def interpret_outcome_def
          raise_for_status_def)
  note t1 = auto_select_is_one_lookup
              [OF a, of "scripted [timeout_outcome, ok_response]" example_repr example_process]
  note t2 = auto_select_is_one_lookup
              [OF a, of "scripted [object_dids_response, ok_response]" example_repr example_process]
  note t3 = auto_select_is_one_lookup
              [OF a, of "scripted [number_dids_response, ok_response]" example_repr example_process]
  from t1 h1 have s1: "fst (auto_select_did (scripted [timeout_outcome, ok_response]) example_repr
                         (resolved_did_number input_to_number_only) example_process) = JNull"
    by (simp add: resolved_input_to_number_only)
  from t2 h2 have s2: "fst (auto_select_did (scripted [object_dids_response, ok_response])
                         example_repr (resolved_did_number input_to_number_only) example_process) =
                       JStr ''+15550003333''"
    by simp
  from t3 h3 have s3: "fst (auto_select_did (scripted [number_dids_response, ok_response])
                         example_repr (resolved_did_number input_to_number_only) example_process) =
                       JStr ''8069256000''"
    by (simp add: str_int_example)
  from t1 s1 have r1: "start_new_call (scripted [timeout_outcome, ok_response]) example_repr
            input_to_number_only example_process =
      (Inr (JStr ''Failed to start call: did_number/from_number is required (no default DID available).''),
       example_process\<lparr>sent := sent example_process @
          [build_request example_process ''POST'' ''/api/validate-and-fetch-dids'' None None]\<rparr>)"
    by simp
  from t2 s2 have r2: "issued example_process
           (start_new_call (scripted [object_dids_response, ok_response]) example_repr
              input_to_number_only example_process) =
        [build_request example_process ''POST'' ''/api/validate-and-fetch-dids'' None None,
         build_request example_process ''POST'' ''/api/call'' None
           (Some (assemble_payload input_to_number_only (JStr ''+15550003333'')))]"
    by simp
  from t3 s3 have r3: "issued example_process
           (start_new_call (scripted [number_dids_response, ok_response]) example_repr
              input_to_number_only example_process) =
        [build_request example_process ''POST'' ''/api/validate-and-fetch-dids'' None None,
         build_request example_process ''POST'' ''/api/call'' None
           (Some (assemble_payload input_to_number_only (JStr ''8069256000'')))]"
    by simp
  from a h1 h2 h3 r1 r2 r3 show ?thesis
    by (simp add: base_url_example_process assemble_payload_to_number_only)
qed

section \<open>Exceptions at the tool boundary\<close>

text \<open>
  Seven of the tools call \<^verbatim>\<open>_make_request\<close> only inside a \<^verbatim>\<open>try\<close> that has both
  \<^verbatim>\<open>except ByteflowAPIError\<close> and \<^verbatim>\<open>except Exception\<close>: whatever the request does, they
  return a value.
\<close>

lemma sibling_tools_return:
  "\<exists>v. fst (get_health_status R s) = Inr v"
  "\<exists>v. fst (get_configuration R s) = Inr v"
  "\<exists>v. fst (get_call_status R cid s) = Inr v"
  "\<exists>v. fst (get_call_transcript R cid s) = Inr v"
  "\<exists>v. fst (get_active_calls R s) = Inr v"
  "\<exists>v. fst (force_disconnect_call R cid s) = Inr v"
  "\<exists>v. fst (start_new_call R repr input s) = Inr v"
  by (simp_all add: get_health_status_def get_configuration_def get_call_status_def
        get_call_transcript_def get_active_calls_def force_disconnect_call_def
        start_new_call_def post_call_returns make_request_eq
        split: sum.splits py_exception.splits prod.splits)


lemma interpret_connection_refused:
  "interpret_outcome connection_refused =
     Inl (ByteflowAPIError ''Byteflow API Connection Error: refused'' None None)"
  by (simp add: connection_refused_def interpret_outcome_def)

lemma scripted_at [simp]:
  "scripted outs history req =
     (if length history < length outs then outs ! length history
      else Inl (ConnectionError ''connection refused''))"
  by (simp add: scripted_def)


section \<open>The DID resolution chain\<close>

text \<open>
  Claim C1. \<^verbatim>\<open>list_available_dids\<close> tries \<^verbatim>\<open>POST /api/validate-and-fetch-dids\<close>, then
  \<^verbatim>\<open>GET /api/did/my-dids\<close>, then \<^verbatim>\<open>GET /api/dids\<close>, each only after the one before it
  failed with a \<^verbatim>\<open>ByteflowAPIError\<close>. The first result is returned at once: after one
  request when the first lookup succeeds, after exactly two when the first fails and the
  second succeeds, after three when only the third succeeds. When all three fail, exactly
  three requests were sent and the message returned is built from the error of the third.
  A first lookup that fails with another exception is not followed by a fallback.
\<close>

theorem list_available_dids_chain:
  "let q1 = build_request s ''POST'' ''/api/validate-and-fetch-dids'' None None;
       q2 = build_request s ''GET'' ''/api/did/my-dids'' None None;
       q3 = build_request s ''GET'' ''/api/dids'' None None;
       o1 = interpret_outcome (R (sent s) q1);
       o2 = interpret_outcome (R (sent s @ [q1]) q2);
       o3 = interpret_outcome (R (sent s @ [q1, q2]) q3)
   in (\<forall>v. o1 = Inr v \<longrightarrow>
         list_available_dids R s = (Inr v, s\<lparr>sent := sent s @ [q1]\<rparr>))
    \<and> (\<forall>m1 sc1 rt1 v.
          o1 = Inl (ByteflowAPIError m1 sc1 rt1) \<and> o2 = Inr v \<longrightarrow>
         list_available_dids R s = (Inr v, s\<lparr>sent := sent s @ [q1, q2]\<rparr>))
    \<and> (\<forall>m1 sc1 rt1 m2 sc2 rt2 v.
          o1 = Inl (ByteflowAPIError m1 sc1 rt1) \<and> o2 = Inl (ByteflowAPIError m2 sc2 rt2)
          \<and> o3 = Inr v \<longrightarrow>
         list_available_dids R s = (Inr v, s\<lparr>sent := sent s @ [q1, q2, q3]\<rparr>))
    \<and> (\<forall>m1 sc1 rt1 m2 sc2 rt2 message status_code response_text.
          o1 = Inl (ByteflowAPIError m1 sc1 rt1) \<and> o2 = Inl (ByteflowAPIError m2 sc2 rt2)
          \<and> o3 = Inl (ByteflowAPIError message status_code response_text) \<longrightarrow>
         list_available_dids R s =
           (Inr (JStr (''Failed to list available DIDs: '' @ message)),
            s\<lparr>sent := sent s @ [q1, q2, q3]\<rparr>))
    \<and> (\<forall>e. o1 = Inl (Exception e) \<longrightarrow>
         list_available_dids R s =
           (Inr (JStr (''An unexpected error occurred: '' @ e)), s\<lparr>sent := sent s @ [q1]\<rparr>))"
  unfolding Let_def
proof (intro conjI allI impI)
  fix v
  assume "interpret_outcome
            (R (sent s) (build_request s ''POST'' ''/api/validate-and-fetch-dids'' None None)) = Inr v"
  then show "list_available_dids R s =
      (Inr v, s\<lparr>sent := sent s @ [build_request s ''POST'' ''/api/validate-and-fetch-dids'' None None]\<rparr>)"
    by (simp add: list_available_dids_def make_request_eq)
next
  fix m1 sc1 rt1 v
  assume "interpret_outcome
            (R (sent s) (build_request s ''POST'' ''/api/validate-and-fetch-dids'' None None)) =
            Inl (ByteflowAPIError m1 sc1 rt1)
          \<and> interpret_outcome
              (R (sent s @ [build_request s ''POST'' ''/api/validate-and-fetch-dids'' None None])
                 (build_request s ''GET'' ''/api/did/my-dids'' None None)) = Inr v"
  then show "list_available_dids R s =
      (Inr v, s\<lparr>sent := sent s @ [build_request s ''POST'' ''/api/validate-and-fetch-dids'' None None,
                                  build_request s ''GET'' ''/api/did/my-dids'' None None]\<rparr>)"
    by (simp add: list_available_dids_def make_request_eq)
next
  fix m1 sc1 rt1 m2 sc2 rt2 v
  assume "interpret_outcome
            (R (sent s) (build_request s ''POST'' ''/api/validate-and-fetch-dids'' None None)) =
            Inl (ByteflowAPIError m1 sc1 rt1)
          \<and> interpret_outcome
              (R (sent s @ [build_request s ''POST'' ''/api/validate-and-fetch-dids'' None None])
                 (build_request s ''GET'' ''/api/did/my-dids'' None None)) =
            Inl (ByteflowAPIError m2 sc2 rt2)
          \<and> interpret_outcome
              (R (sent s @ [build_request s ''POST'' ''/api/validate-and-fetch-dids'' None None,
                            build_request s ''GET'' ''/api/did/my-dids'' None None])
                 (build_request s ''GET'' ''/api/dids'' None None)) = Inr v"
  then show "list_available_dids R s =
      (Inr v, s\<lparr>sent := sent s @ [build_request s ''POST'' ''/api/validate-and-fetch-dids'' None None,
                                  build_request s ''GET'' ''/api/did/my-dids'' None None,
                                  build_request s ''GET'' ''/api/dids'' None None]\<rparr>)"
    by (simp add: list_available_dids_def make_request_eq)
next
  fix m1 sc1 rt1 m2 sc2 rt2 message status_code response_text
  assume "interpret_outcome
            (R (sent s) (build_request s ''POST'' ''/api/validate-and-fetch-dids'' None None)) =
            Inl (ByteflowAPIError m1 sc1 rt1)
          \<and> interpret_outcome
              (R (sent s @ [build_request s ''POST'' ''/api/validate-and-fetch-dids'' None None])
                 (build_request s ''GET'' ''/api/did/my-dids'' None None)) =
            Inl (ByteflowAPIError m2 sc2 rt2)
          \<and> interpret_outcome
              (R (sent s @ [build_request s ''POST'' ''/api/validate-and-fetch-dids'' None None,
                            build_request s ''GET'' ''/api/did/my-dids'' None None])
                 (build_request s ''GET'' ''/api/dids'' None None)) =
            Inl (ByteflowAPIError message status_code response_text)"
  then show "list_available_dids R s =
      (Inr (JStr (''Failed to list available DIDs: '' @ message)),
       s\<lparr>sent := sent s @ [build_request s ''POST'' ''/api/validate-and-fetch-dids'' None None,
                           build_request s ''GET'' ''/api/did/my-dids'' None None,
                           build_request s ''GET'' ''/api/dids'' None None]\<rparr>)"
    by (simp add: list_available_dids_def make_request_eq)
next
  fix e
  assume "interpret_outcome
            (R (sent s) (build_request s ''POST'' ''/api/validate-and-fetch-dids'' None None)) =
            Inl (Exception e)"
  then show "list_available_dids R s =
      (Inr (JStr (''An unexpected error occurred: '' @ e)),
       s\<lparr>sent := sent s @ [build_request s ''POST'' ''/api/validate-and-fetch-dids'' None None]\<rparr>)"
    by (simp add: list_available_dids_def make_request_eq)
qed

lemma interpret_examples:
  "interpret_outcome server_error =
     Inl (ByteflowAPIError ''Byteflow API HTTP Error: 503 - unavailable'' (Some 503)
            (Some ''unavailable''))"
  "interpret_outcome timeout_outcome =
     Inl (ByteflowAPIError ''Byteflow API Timeout Error: read timed out'' None None)"
  "interpret_outcome my_dids_response = Inr (JList [JStr ''+15550001111''])"
  by (simp_all add: server_error_def timeout_outcome_def my_dids_response_def
        interpret_outcome_def raise_for_status_def str_int_def str_nat.simps digit_char_def)

theorem list_available_dids_chain_witness:
  "fst (list_available_dids (scripted [connection_refused, my_dids_response]) example_process) =
     Inr (JList [JStr ''+15550001111''])
   \<and> map (\<lambda>r. (req_method r, req_url r))
        (sent (snd (list_available_dids (scripted [connection_refused, my_dids_response])
                      example_process))) =
       [(''POST'', ''https://apidoc.byteflow.bot/api/validate-and-fetch-dids''),
        (''GET'', ''https://apidoc.byteflow.bot/api/did/my-dids'')]
   \<and> fst (list_available_dids (scripted [connection_refused, server_error, timeout_outcome])
            example_process) =
       Inr (JStr ''Failed to list available DIDs: Byteflow API Timeout Error: read timed out'')
   \<and> map (\<lambda>r. (req_method r, req_url r))
        (sent (snd (list_available_dids (scripted [connection_refused, server_error, timeout_outcome])
                      example_process))) =
       [(''POST'', ''https://apidoc.byteflow.bot/api/validate-and-fetch-dids''),
        (''GET'', ''https://apidoc.byteflow.bot/api/did/my-dids''),
        (''GET'', ''https://apidoc.byteflow.bot/api/dids'')]"
proof -
  note o = interpret_connection_refused interpret_examples
  from o list_available_dids_chain
           [of example_process "scripted [connection_refused, my_dids_response]"]
  have two: "list_available_dids (scripted [connection_refused, my_dids_response]) example_process =
      (Inr (JList [JStr ''+15550001111'']),
       example_process\<lparr>sent :=
         [build_request example_process ''POST'' ''/api/validate-and-fetch-dids'' None None,
          build_request example_process ''GET'' ''/api/did/my-dids'' None None]\<rparr>)"
    by (simp add: Let_def)
  from o list_available_dids_chain
           [of example_process "scripted [connection_refused, server_error, timeout_outcome]"]
  have three: "list_available_dids (scripted [connection_refused, server_error, timeout_outcome])
                 example_process =
      (Inr (JStr ''Failed to list available DIDs: Byteflow API Timeout Error: read timed out''),
       example_process\<lparr>sent :=
         [build_request example_process ''POST'' ''/api/validate-and-fetch-dids'' None None,
          build_request example_process ''GET'' ''/api/did/my-dids'' None None,
          build_request example_process ''GET'' ''/api/dids'' None None]\<rparr>)"
    by (simp add: Let_def)
  from two three show ?thesis
    by (simp add: base_url_example_process)
qed

end
